theory Spec2Isabelle
  imports Complex_Main
begin

section \<open>JavaScript values\<close>

text \<open>
  The request parameters are typed \<^verbatim>\<open>any\<close>, so the handlers work on whatever JSON value
  the caller sent. A JSON object is the list of its own properties (no key twice), an
  absent field is \<open>JUndefined\<close>. Numbers are rationals: the values the handlers read are
  only tested for truthiness, compared and printed.
\<close>

datatype jsval =
    JUndefined
  | JNull
  | JBool bool
  | JNum rat
  | JStr string
  | JArr "jsval list"
  | JObj "(string \<times> jsval) list"

datatype type_error =
    CannotDestructure
  | CannotReadProperty string
  | NotAFunction string
  | CannotConvertToPrimitive

datatype js_error =
    TypeError type_error
  | Error string
  | BadRequestException string

text \<open>A settled promise: every \<^verbatim>\<open>async\<close> function of the source returns one.\<close>

datatype 'a promise = Fulfilled 'a | Rejected js_error

fun truthy :: "jsval \<Rightarrow> bool" where
  "truthy JUndefined = False"
| "truthy JNull = False"
| "truthy (JBool b) = b"
| "truthy (JNum x) = (x \<noteq> 0)"
| "truthy (JStr s) = (s \<noteq> [])"
| "truthy (JArr xs) = True"
| "truthy (JObj kvs) = True"

text \<open>\<^verbatim>\<open>a || b\<close>\<close>

definition js_or :: "jsval \<Rightarrow> jsval \<Rightarrow> jsval" where
  "js_or a b = (if truthy a then a else b)"

text \<open>
  \<^verbatim>\<open>v.k\<close> for the property names the handlers read (\<^verbatim>\<open>name\<close>, \<^verbatim>\<open>arguments\<close>, \<^verbatim>\<open>city\<close>,
  \<^verbatim>\<open>units\<close>, \<^verbatim>\<open>cities\<close>, \<^verbatim>\<open>travel_date\<close>, \<^verbatim>\<open>city1\<close>, \<^verbatim>\<open>city2\<close>): none of them is a built-in
  property of a string, number, boolean or array, so on those the read gives
  \<^verbatim>\<open>undefined\<close>; on \<^verbatim>\<open>undefined\<close> and \<^verbatim>\<open>null\<close> it throws.
\<close>

fun getProp :: "jsval \<Rightarrow> string \<Rightarrow> js_error + jsval" where
  "getProp JUndefined k = Inl (TypeError (CannotReadProperty k))"
| "getProp JNull k = Inl (TypeError (CannotReadProperty k))"
| "getProp (JObj kvs) k = Inr (case map_of kvs k of None \<Rightarrow> JUndefined | Some v \<Rightarrow> v)"
| "getProp v k = Inr JUndefined"

text \<open>\<^verbatim>\<open>const { name, arguments: args } = request.params;\<close>\<close>

fun destructureParams :: "jsval \<Rightarrow> js_error + (jsval \<times> jsval)" where
  "destructureParams JUndefined = Inl (TypeError CannotDestructure)"
| "destructureParams JNull = Inl (TypeError CannotDestructure)"
| "destructureParams (JObj kvs) =
     Inr (case map_of kvs ''name'' of None \<Rightarrow> JUndefined | Some v \<Rightarrow> v,
          case map_of kvs ''arguments'' of None \<Rightarrow> JUndefined | Some v \<Rightarrow> v)"
| "destructureParams v = Inr (JUndefined, JUndefined)"

section \<open>Strings and numbers\<close>

text \<open>
  Strings are HOL strings, so a character is one of the 256 characters \<^verbatim>\<open>U+0000\<close> to
  \<^verbatim>\<open>U+00FF\<close>. Among those, \<^verbatim>\<open>trim\<close> removes tab, line feed, vertical tab, form feed,
  carriage return, space and no-break space. \<^verbatim>\<open>toLowerCase\<close> maps \<^verbatim>\<open>A\<close> to \<^verbatim>\<open>Z\<close> and the
  accented capitals \<^verbatim>\<open>U+00C0\<close> to \<^verbatim>\<open>U+00DE\<close> (the multiplication sign apart) to the letter 32
  places up. \<^verbatim>\<open>toUpperCase\<close> maps the small letters 32 places down and the sharp s to
  \<^verbatim>\<open>SS\<close>; the upper case of \<^verbatim>\<open>U+00B5\<close> and of \<^verbatim>\<open>U+00FF\<close> is no 8-bit character, and the
  model leaves these two as they are.
\<close>

definition isWhiteSpace :: "char \<Rightarrow> bool" where
  "isWhiteSpace c = ((of_char c :: nat) \<in> {9, 10, 11, 12, 13, 32, 160})"

definition trim :: "string \<Rightarrow> string" where
  "trim s = rev (dropWhile isWhiteSpace (rev (dropWhile isWhiteSpace s)))"

definition toUpperChar :: "char \<Rightarrow> string" where
  "toUpperChar c =
     (let n = (of_char c :: nat) in
      if (97 \<le> n \<and> n \<le> 122) \<or> (224 \<le> n \<and> n \<le> 254 \<and> n \<noteq> 247) then [char_of (n - 32)]
      else if n = 223 then ''SS''
      else [c])"

definition toLowerChar :: "char \<Rightarrow> char" where
  "toLowerChar c =
     (let n = (of_char c :: nat) in
      if (65 \<le> n \<and> n \<le> 90) \<or> (192 \<le> n \<and> n \<le> 222 \<and> n \<noteq> 215) then char_of (n + 32)
      else c)"

definition toUpperCase :: "string \<Rightarrow> string" where
  "toUpperCase s = concat (map toUpperChar s)"

definition toLowerCase :: "string \<Rightarrow> string" where
  "toLowerCase s = map toLowerChar s"

text \<open>\<^verbatim>\<open>s.split(',')\<close>: the pieces between the separators, one more than there are separators.\<close>

fun split :: "char \<Rightarrow> string \<Rightarrow> string list" where
  "split sep [] = [[]]"
| "split sep (c # cs) =
     (if c = sep then [] # split sep cs
      else (case split sep cs of [] \<Rightarrow> [[c]] | p # ps \<Rightarrow> (c # p) # ps))"

text \<open>\<^verbatim>\<open>xs.join(sep)\<close> on an array of strings.\<close>

fun join :: "string \<Rightarrow> string list \<Rightarrow> string" where
  "join sep [] = []"
| "join sep [x] = x"
| "join sep (x # y # ys) = x @ sep @ join sep (y # ys)"

definition digitChar :: "nat \<Rightarrow> char" where
  "digitChar d = char_of (48 + d)"

fun natToString :: "nat \<Rightarrow> string" where
  "natToString n =
     (if n < 10 then [digitChar n] else natToString (n div 10) @ [digitChar (n mod 10)])"

fun fracDigits :: "nat \<Rightarrow> rat \<Rightarrow> string" where
  "fracDigits 0 r = []"
| "fracDigits (Suc k) r =
     (if r = 0 then [] else digitChar (nat \<lfloor>10 * r\<rfloor>) # fracDigits k (frac (10 * r)))"

text \<open>
  How a number is printed in a template string: its decimal expansion, the way
  JavaScript prints the numbers of a weather record (magnitude below \<open>10\<^sup>2\<^sup>1\<close>, a short
  decimal fraction).
\<close>

definition numberToString :: "rat \<Rightarrow> string" where
  "numberToString x =
     (if x < 0 then ''-'' else '''') @ natToString (nat \<lfloor>\<bar>x\<bar>\<rfloor>) @
     (if frac \<bar>x\<bar> = 0 then '''' else ''.'' @ fracDigits 20 (frac \<bar>x\<bar>))"

text \<open>
  \<^verbatim>\<open>`${v}`\<close>: an object prints as \<^verbatim>\<open>[object Object]\<close> unless a property of its own hides
  \<^verbatim>\<open>toString\<close> (no JSON value is callable, so the conversion then throws); an array prints
  its elements separated by commas, \<^verbatim>\<open>undefined\<close> and \<^verbatim>\<open>null\<close> elements as nothing.
\<close>

fun toStringJS :: "jsval \<Rightarrow> js_error + string"
  and joinElements :: "jsval list \<Rightarrow> js_error + string" where
  "toStringJS JUndefined = Inr ''undefined''"
| "toStringJS JNull = Inr ''null''"
| "toStringJS (JBool b) = Inr (if b then ''true'' else ''false'')"
| "toStringJS (JNum x) = Inr (numberToString x)"
| "toStringJS (JStr s) = Inr s"
| "toStringJS (JArr xs) = joinElements xs"
| "toStringJS (JObj kvs) =
     (if ''toString'' \<in> fst ` set kvs then Inl (TypeError CannotConvertToPrimitive)
      else Inr ''[object Object]'')"
| "joinElements [] = Inr []"
| "joinElements (x # xs) =
     (case (if x = JUndefined \<or> x = JNull then Inr [] else toStringJS x) of
        Inl e \<Rightarrow> Inl e
      | Inr s \<Rightarrow>
          (if xs = [] then Inr s
           else (case joinElements xs of Inl e \<Rightarrow> Inl e | Inr t \<Rightarrow> Inr (s @ '','' @ t))))"

section \<open>The weather service\<close>

text \<open>
  What the service reads from outside the program, for one request: the configured API
  key, the outcome of the HTTP request of the \<open>n\<close>-th call of \<^verbatim>\<open>getWeatherByCity\<close>, the
  time \<^verbatim>\<open>new Date()\<close> gives in that call (as \<^verbatim>\<open>toISOString\<close> prints it), and the message
  text the JavaScript engine puts into a \<^verbatim>\<open>TypeError\<close> it raises itself.
\<close>

record OpenWeatherMapResponse =
  owm_name :: string
  owm_sys_country :: string
  owm_main_temp :: rat
  owm_main_feels_like :: rat
  owm_main_humidity :: rat
  owm_main_pressure :: rat
  owm_weather :: "string list"
  owm_wind_speed :: rat
  owm_wind_deg :: rat
  owm_visibility :: rat

text \<open>
  The fields are the ones \<^verbatim>\<open>transformWeatherData\<close> reads; \<open>owm_weather\<close> lists the
  \<^verbatim>\<open>description\<close> of each entry of \<^verbatim>\<open>data.weather\<close>. A failed request carries the status
  of \<^verbatim>\<open>error.response\<close> when there is one.
\<close>

datatype http_outcome =
    HttpResponse OpenWeatherMapResponse
  | HttpFailure "nat option"

record env =
  OPENWEATHER_API_KEY :: "string option"
  axios_get :: "nat \<Rightarrow> string \<Rightarrow> jsval \<Rightarrow> http_outcome"
  newDate :: "nat \<Rightarrow> string"
  engineMessage :: "type_error \<Rightarrow> string"

record WeatherData =
  city :: string
  country :: string
  temperature :: rat
  feelsLike :: rat
  humidity :: rat
  pressure :: rat
  description :: string
  windSpeed :: rat
  windDirection :: rat
  visibility :: rat
  units :: jsval
  timestamp :: string

text \<open>\<^verbatim>\<open>error.message\<close>\<close>

fun message :: "env \<Rightarrow> js_error \<Rightarrow> string" where
  "message e (TypeError t) = engineMessage e t"
| "message e (Error m) = m"
| "message e (BadRequestException m) = m"

text \<open>\<^verbatim>\<open>this.configService.get<string>('OPENWEATHER_API_KEY') || 'demo-key'\<close>\<close>

definition apiKey :: "env \<Rightarrow> string" where
  "apiKey e =
     (case OPENWEATHER_API_KEY e of
        None \<Rightarrow> ''demo-key''
      | Some k \<Rightarrow> if k = [] then ''demo-key'' else k)"

text \<open>\<^verbatim>\<open>Math.round\<close>\<close>

definition Math_round :: "rat \<Rightarrow> rat" where
  "Math_round x = of_int \<lfloor>x + 1 / 2\<rfloor>"

definition transformWeatherData ::
  "OpenWeatherMapResponse \<Rightarrow> jsval \<Rightarrow> string \<Rightarrow> js_error + WeatherData" where
  "transformWeatherData d unitsArg t =
     (case owm_weather d of
        [] \<Rightarrow> Inl (TypeError (CannotReadProperty ''description''))
      | w0 # ws \<Rightarrow>
          Inr \<lparr> city = owm_name d,
                country = owm_sys_country d,
                temperature = Math_round (owm_main_temp d),
                feelsLike = Math_round (owm_main_feels_like d),
                humidity = owm_main_humidity d,
                pressure = owm_main_pressure d,
                description = w0,
                windSpeed = owm_wind_speed d,
                windDirection = owm_wind_deg d,
                visibility = owm_visibility d,
                units = unitsArg,
                timestamp = t \<rparr>)"

definition getMockWeatherData :: "string \<Rightarrow> jsval \<Rightarrow> string \<Rightarrow> WeatherData" where
  "getMockWeatherData cityArg unitsArg t =
     (let isMetric = (unitsArg = JStr ''metric'') in
      \<lparr> city = toUpperCase (take 1 cityArg) @ toLowerCase (drop 1 cityArg),
        country = ''XX'',
        temperature = (if isMetric then 22 else 72),
        feelsLike = (if isMetric then 24 else 75),
        humidity = 65,
        pressure = 1013,
        description = ''partly cloudy'',
        windSpeed = (if isMetric then 5.2 else 11.6),
        windDirection = 180,
        visibility = 10000,
        units = unitsArg,
        timestamp = t \<rparr>)"

text \<open>
  \<^verbatim>\<open>getWeatherByCity\<close>. The list is the record of the calls made so far in the request,
  each with the city and the units it was given; the call adds itself to it. Units
  that are \<^verbatim>\<open>undefined\<close> take the default of the parameter, \<^verbatim>\<open>metric\<close>. The first
  statement logs the template string \<^verbatim>\<open>`Fetching weather for city: ${city} with units: ${units}`\<close>,
  which converts the city and then the units to a string, and throws when one of them
  cannot be converted; the tests of the city come after it. A truthy
  city that is no string has no \<^verbatim>\<open>trim\<close> method. The \<^verbatim>\<open>catch\<close> around the request turns
  every failure, also one inside \<^verbatim>\<open>transformWeatherData\<close>, into a
  \<^verbatim>\<open>BadRequestException\<close>.
\<close>

type_synonym calls = "(jsval \<times> jsval) list"

definition fetchFailure :: "string \<Rightarrow> nat option \<Rightarrow> js_error" where
  \<open>fetchFailure cityArg status =
     (if status = Some 404 then BadRequestException (''City "'' @ cityArg @ ''" not found'')
      else if status = Some 401 then BadRequestException ''Invalid API key''
      else BadRequestException ''Failed to fetch weather data'')\<close>

definition getWeatherByCity ::
  "env \<Rightarrow> jsval \<Rightarrow> jsval \<Rightarrow> calls \<Rightarrow> WeatherData promise \<times> calls" where
  "getWeatherByCity e cityArg unitsArg made =
     (let n = length made;
          unitsUsed = (if unitsArg = JUndefined then JStr ''metric'' else unitsArg) in
      (case toStringJS cityArg of
         Inl err \<Rightarrow> Rejected err
       | Inr cityText \<Rightarrow>
           (case toStringJS unitsUsed of
              Inl err \<Rightarrow> Rejected err
            | Inr unitsText \<Rightarrow>
                (if \<not> truthy cityArg then Rejected (BadRequestException ''City name is required'')
                 else (case cityArg of
                     JStr s \<Rightarrow>
                       (if length (trim s) = 0 then Rejected (BadRequestException ''City name is required'')
                        else if apiKey e = ''demo-key'' then
                          Fulfilled (getMockWeatherData s unitsUsed (newDate e n))
                        else (case axios_get e n s unitsUsed of
                            HttpResponse d \<Rightarrow>
                              (case transformWeatherData d unitsUsed (newDate e n) of
                                 Inr w \<Rightarrow> Fulfilled w
                               | Inl err \<Rightarrow> Rejected (fetchFailure s None))
                          | HttpFailure status \<Rightarrow> Rejected (fetchFailure s status)))
                   | _ \<Rightarrow> Rejected (TypeError (NotAFunction ''city.trim''))))),
       made @ [(cityArg, unitsArg)]))"

definition formatWeatherForDisplay :: "WeatherData \<Rightarrow> string" where
  "formatWeatherForDisplay weather =
     (let tempUnit = (if units weather = JStr ''metric'' then [CHR 0xB0, CHR ''C''] else [CHR 0xB0, CHR ''F'']);
          speedUnit = (if units weather = JStr ''metric'' then ''m/s'' else ''mph'')
      in ''Weather in '' @ city weather @ '', '' @ country weather @ '':\<newline>'' @
         ''Temperature: '' @ numberToString (temperature weather) @ tempUnit @
         '' (feels like '' @ numberToString (feelsLike weather) @ tempUnit @ '')\<newline>'' @
         ''Condition: '' @ description weather @ ''\<newline>'' @
         ''Humidity: '' @ numberToString (humidity weather) @ ''%\<newline>'' @
         ''Pressure: '' @ numberToString (pressure weather) @ '' hPa\<newline>'' @
         ''Wind: '' @ numberToString (windSpeed weather) @ '' '' @ speedUnit @ '' at '' @
           numberToString (windDirection weather) @ [CHR 0xB0] @ ''\<newline>'' @
         ''Visibility: '' @ numberToString (visibility weather / 1000) @ '' km\<newline>'' @
         ''Last updated: '' @ timestamp weather)"

section \<open>The MCP service\<close>

text \<open>
  The envelopes of \<^verbatim>\<open>mcp.types\<close>. An absent \<^verbatim>\<open>id\<close> or \<^verbatim>\<open>params\<close> is \<open>JUndefined\<close>; a
  response has the key \<^verbatim>\<open>result\<close>, or the key \<^verbatim>\<open>error\<close>, when the field is not \<open>None\<close>.
  The field names carry the name of their record in front (\<open>id\<close> is the identity
  function of HOL).
\<close>

record MCPRequest =
  req_jsonrpc :: string
  req_id :: jsval
  req_method :: string
  req_params :: jsval

record MCPError =
  err_code :: int
  err_message :: string

record MCPResponse =
  resp_jsonrpc :: string
  resp_id :: jsval
  resp_result :: "jsval option"
  resp_error :: "MCPError option"

definition createErrorResponse :: "jsval \<Rightarrow> int \<Rightarrow> string \<Rightarrow> MCPResponse" where
  "createErrorResponse i c m =
     \<lparr> resp_jsonrpc = ''2.0'', resp_id = i, resp_result = None,
       resp_error = Some \<lparr> err_code = c, err_message = m \<rparr> \<rparr>"

definition getServerCapabilities :: jsval where
  "getServerCapabilities =
     JObj [(''tools'', JObj [(''listChanged'', JBool True)]),
           (''prompts'', JObj [(''listChanged'', JBool True)])]"

definition getAvailableTools :: jsval where
  "getAvailableTools =
     JArr [
       JObj [(''name'', JStr ''get-weather''),
             (''description'', JStr ''Get current weather information for a city''),
             (''inputSchema'',
              JObj [(''type'', JStr ''object''),
                    (''properties'',
                     JObj [(''city'',
                            JObj [(''type'', JStr ''string''),
                                  (''description'', JStr ''The city name to get weather for'')]),
                           (''units'',
                            JObj [(''type'', JStr ''string''),
                                  (''enum'', JArr [JStr ''metric'', JStr ''imperial'']),
                                  (''description'',
                                   JStr ''Temperature units (metric for Celsius, imperial for Fahrenheit)''),
                                  (''default'', JStr ''metric'')])]),
                    (''required'', JArr [JStr ''city''])])]]"

definition promptArgument :: "string \<Rightarrow> string \<Rightarrow> bool \<Rightarrow> jsval" where
  "promptArgument n d r =
     JObj [(''name'', JStr n), (''description'', JStr d), (''required'', JBool r)]"

definition getAvailablePrompts :: jsval where
  "getAvailablePrompts =
     JArr [
       JObj [(''name'', JStr ''weather-report''),
             (''description'',
              JStr ''Generate a comprehensive weather report for a city with analysis and recommendations''),
             (''arguments'',
              JArr [promptArgument ''city'' ''The city to get weather for'' True,
                    promptArgument ''units'' ''Temperature units (metric or imperial)'' False])],
       JObj [(''name'', JStr ''travel-weather-advice''),
             (''description'', JStr ''Get weather-based travel advice for multiple cities''),
             (''arguments'',
              JArr [promptArgument ''cities'' ''Comma-separated list of cities to check'' True,
                    promptArgument ''travel_date'' ''Intended travel date (for context)'' False])],
       JObj [(''name'', JStr ''weather-comparison''),
             (''description'', JStr ''Compare weather conditions between two cities''),
             (''arguments'',
              JArr [promptArgument ''city1'' ''First city to compare'' True,
                    promptArgument ''city2'' ''Second city to compare'' True])]]"

definition handleInitialize :: "MCPRequest \<Rightarrow> MCPResponse" where
  "handleInitialize request =
     \<lparr> resp_jsonrpc = ''2.0'', resp_id = req_id request,
       resp_result = Some (JObj [(''protocolVersion'', JStr ''2024-11-05''),
                                 (''capabilities'', getServerCapabilities),
                                 (''serverInfo'',
                                  JObj [(''name'', JStr ''weather-mcp-server''),
                                        (''version'', JStr ''1.0.0'')])]),
       resp_error = None \<rparr>"

definition handleToolsList :: "MCPRequest \<Rightarrow> MCPResponse" where
  "handleToolsList request =
     \<lparr> resp_jsonrpc = ''2.0'', resp_id = req_id request,
       resp_result = Some (JObj [(''tools'', getAvailableTools)]),
       resp_error = None \<rparr>"

definition handlePromptsList :: "MCPRequest \<Rightarrow> MCPResponse" where
  "handlePromptsList request =
     \<lparr> resp_jsonrpc = ''2.0'', resp_id = req_id request,
       resp_result = Some (JObj [(''prompts'', getAvailablePrompts)]),
       resp_error = None \<rparr>"

text \<open>The result of a tool call: one text item.\<close>

definition textContent :: "string \<Rightarrow> jsval" where
  "textContent t = JArr [JObj [(''type'', JStr ''text''), (''text'', JStr t)]]"

text \<open>
  \<^verbatim>\<open>handleToolsCall\<close>. The destructuring is outside the \<^verbatim>\<open>try\<close>, so a failure there rejects
  the promise; reading \<^verbatim>\<open>args.city\<close> and the awaited fetch are inside it, so their
  failures become the error response of the \<^verbatim>\<open>catch\<close>.
\<close>

definition toolsCallTry ::
  "env \<Rightarrow> MCPRequest \<Rightarrow> jsval \<Rightarrow> calls \<Rightarrow> (js_error + MCPResponse) \<times> calls" where
  "toolsCallTry e request args made =
     (case getProp args ''city'' of
        Inl err \<Rightarrow> (Inl err, made)
      | Inr cityArg \<Rightarrow>
          (case getProp args ''units'' of
             Inl err \<Rightarrow> (Inl err, made)
           | Inr unitsArg \<Rightarrow>
               (case getWeatherByCity e cityArg (js_or unitsArg (JStr ''metric'')) made of
                  (Rejected err, made') \<Rightarrow> (Inl err, made')
                | (Fulfilled weather, made') \<Rightarrow>
                    (Inr \<lparr> resp_jsonrpc = ''2.0'', resp_id = req_id request,
                           resp_result =
                             Some (JObj [(''content'', textContent (formatWeatherForDisplay weather))]),
                           resp_error = None \<rparr>,
                     made'))))"

definition handleToolsCall ::
  "env \<Rightarrow> MCPRequest \<Rightarrow> calls \<Rightarrow> MCPResponse promise \<times> calls" where
  "handleToolsCall e request made =
     (case destructureParams (req_params request) of
        Inl err \<Rightarrow> (Rejected err, made)
      | Inr (name, args) \<Rightarrow>
          (if name = JStr ''get-weather'' then
             (case toolsCallTry e request args made of
                (Inr response, made') \<Rightarrow> (Fulfilled response, made')
              | (Inl err, made') \<Rightarrow>
                  (Fulfilled (createErrorResponse (req_id request) (- 32603)
                                (''Weather service error: '' @ message e err)),
                   made'))
           else (Fulfilled (createErrorResponse (req_id request) (- 32602) ''Unknown tool''), made)))"

text \<open>
  \<^verbatim>\<open>Promise.all\<close>: fulfilled with all the values, or rejected when one of the promises
  is. JavaScript rejects with the rejection that settles first in time; the model has no
  time, and takes the first rejected promise of the list.
\<close>

fun Promise_all :: "'a promise list \<Rightarrow> 'a list promise" where
  "Promise_all [] = Fulfilled []"
| "Promise_all (Rejected err # ps) = Rejected err"
| "Promise_all (Fulfilled v # ps) =
     (case Promise_all ps of Rejected err \<Rightarrow> Rejected err | Fulfilled vs \<Rightarrow> Fulfilled (v # vs))"

text \<open>One message with the role \<^verbatim>\<open>user\<close>.\<close>

definition userMessages :: "string \<Rightarrow> jsval" where
  "userMessages t =
     JArr [JObj [(''role'', JStr ''user''),
                 (''content'', JObj [(''type'', JStr ''text''), (''text'', JStr t)])]]"

text \<open>What the three generators return: the id is the literal \<^verbatim>\<open>1\<close>.\<close>

definition promptResponse :: "string \<Rightarrow> jsval \<Rightarrow> MCPResponse" where
  "promptResponse d messages =
     \<lparr> resp_jsonrpc = ''2.0'', resp_id = JNum 1,
       resp_result = Some (JObj [(''description'', JStr d), (''messages'', messages)]),
       resp_error = None \<rparr>"

definition weatherReportText :: "string \<Rightarrow> string" where
  "weatherReportText weatherText =
     ''Please analyze this weather data and provide a comprehensive weather report with insights and recommendations:\<newline>\<newline>'' @
     weatherText @
     ''\<newline>\<newline>Include:\<newline>- Current conditions summary\<newline>- Comfort level analysis\<newline>- Activity recommendations\<newline>- What to wear suggestions\<newline>- Any weather alerts or notable conditions''"

definition generateWeatherReportPrompt ::
  "env \<Rightarrow> jsval \<Rightarrow> calls \<Rightarrow> MCPResponse promise \<times> calls" where
  "generateWeatherReportPrompt e args made =
     (case getProp args ''city'' of
        Inl err \<Rightarrow> (Rejected err, made)
      | Inr c \<Rightarrow>
          (case getProp args ''units'' of
             Inl err \<Rightarrow> (Rejected err, made)
           | Inr u \<Rightarrow>
               (let cityArg = js_or c (JStr ''London''); unitsArg = js_or u (JStr ''metric'') in
                (case getWeatherByCity e cityArg unitsArg made of
                   (Rejected err, made') \<Rightarrow> (Rejected err, made')
                 | (Fulfilled weather, made') \<Rightarrow>
                     (let messages = userMessages (weatherReportText (formatWeatherForDisplay weather)) in
                      (case toStringJS cityArg of
                         Inl err \<Rightarrow> (Rejected err, made')
                       | Inr cityText \<Rightarrow>
                           (Fulfilled (promptResponse (''Comprehensive weather report for '' @ cityText) messages),
                            made')))))))"

text \<open>\<^verbatim>\<open>cities.map(city => this.weatherService.getWeatherByCity(city, 'metric'))\<close>\<close>

fun fetchEach :: "env \<Rightarrow> string list \<Rightarrow> calls \<Rightarrow> WeatherData promise list \<times> calls" where
  "fetchEach e [] made = ([], made)"
| "fetchEach e (c # cs) made =
     (case getWeatherByCity e (JStr c) (JStr ''metric'') made of
        (p, made') \<Rightarrow> (case fetchEach e cs made' of (ps, made'') \<Rightarrow> (p # ps, made'')))"

definition travelAdviceText :: "string \<Rightarrow> string \<Rightarrow> string" where
  "travelAdviceText travelDate weatherTexts =
     ''I'' @ [CHR 0x27] @ ''m planning to travel to these cities '' @ travelDate @
     ''. Please analyze the weather conditions and provide travel advice:\<newline>\<newline>'' @
     weatherTexts @
     ''\<newline>\<newline>Please provide:\<newline>- Best city for outdoor activities\<newline>- Packing recommendations\<newline>- Transportation considerations\<newline>- Best times to visit each location\<newline>- Any weather-related travel warnings''"

definition generateTravelWeatherAdvicePrompt ::
  "env \<Rightarrow> jsval \<Rightarrow> calls \<Rightarrow> MCPResponse promise \<times> calls" where
  "generateTravelWeatherAdvicePrompt e args made =
     (case getProp args ''cities'' of
        Inl err \<Rightarrow> (Rejected err, made)
      | Inr c \<Rightarrow>
          (case js_or c (JStr ''London,Paris'') of
             JStr s \<Rightarrow>
               (let cities = map trim (split CHR '','' s) in
                (case getProp args ''travel_date'' of
                   Inl err \<Rightarrow> (Rejected err, made)
                 | Inr d \<Rightarrow>
                     (let travelDate = js_or d (JStr ''today'') in
                      (case fetchEach e cities made of
                         (weatherPromises, made') \<Rightarrow>
                           (case Promise_all weatherPromises of
                              Rejected err \<Rightarrow> (Rejected err, made')
                            | Fulfilled weatherResults \<Rightarrow>
                                (let weatherTexts =
                                       join ''\<newline>\<newline>'' (map formatWeatherForDisplay weatherResults) in
                                 (case toStringJS travelDate of
                                    Inl err \<Rightarrow> (Rejected err, made')
                                  | Inr dateText \<Rightarrow>
                                      (Fulfilled
                                         (promptResponse
                                            (''Travel weather advice for '' @ join '', '' cities)
                                            (userMessages (travelAdviceText dateText weatherTexts))),
                                       made'))))))))
           | _ \<Rightarrow> (Rejected (TypeError (NotAFunction ''split'')), made)))"

text \<open>The template of the comparison, around the two sections.\<close>

definition comparisonIntro :: string where
  "comparisonIntro =
     ''Please compare the weather conditions between these two cities and help me decide which has better conditions:\<newline>\<newline>''"

definition comparisonOutro :: string where
  "comparisonOutro =
     ''\<newline>\<newline>Provide a detailed comparison including:\<newline>- Temperature and comfort differences\<newline>- Precipitation and visibility\<newline>- Wind conditions\<newline>- Overall weather quality\<newline>- Recommendations for activities in each city''"

definition weatherComparisonText :: "string \<Rightarrow> string \<Rightarrow> string \<Rightarrow> string \<Rightarrow> string" where
  "weatherComparisonText city1 weather1Text city2 weather2Text =
     comparisonIntro @
     ''**'' @ city1 @ '':**\<newline>'' @ weather1Text @
     ''\<newline>\<newline>**'' @ city2 @ '':**\<newline>'' @ weather2Text @
     comparisonOutro"

text \<open>
  \<^verbatim>\<open>Promise.all\<close> of the two promises gives two values, so the case of another number
  of values below cannot occur.
\<close>

definition generateWeatherComparisonPrompt ::
  "env \<Rightarrow> jsval \<Rightarrow> calls \<Rightarrow> MCPResponse promise \<times> calls" where
  "generateWeatherComparisonPrompt e args made =
     (case getProp args ''city1'' of
        Inl err \<Rightarrow> (Rejected err, made)
      | Inr a \<Rightarrow>
          (case getProp args ''city2'' of
             Inl err \<Rightarrow> (Rejected err, made)
           | Inr b \<Rightarrow>
               (let city1 = js_or a (JStr ''London''); city2 = js_or b (JStr ''Paris'') in
                (case getWeatherByCity e city1 (JStr ''metric'') made of
                   (p1, made1) \<Rightarrow>
                     (case getWeatherByCity e city2 (JStr ''metric'') made1 of
                        (p2, made2) \<Rightarrow>
                          (case Promise_all [p1, p2] of
                             Fulfilled [weather1, weather2] \<Rightarrow>
                               (case toStringJS city1 of
                                  Inl err \<Rightarrow> (Rejected err, made2)
                                | Inr city1Text \<Rightarrow>
                                    (case toStringJS city2 of
                                       Inl err \<Rightarrow> (Rejected err, made2)
                                     | Inr city2Text \<Rightarrow>
                                         (Fulfilled
                                            (promptResponse
                                               (''Weather comparison between '' @ city1Text @ '' and '' @ city2Text)
                                               (userMessages
                                                  (weatherComparisonText
                                                     city1Text (formatWeatherForDisplay weather1)
                                                     city2Text (formatWeatherForDisplay weather2)))),
                                          made2)))
                           | Fulfilled other \<Rightarrow> (Rejected (TypeError CannotDestructure), made2)
                           | Rejected err \<Rightarrow> (Rejected err, made2)))))))"

text \<open>
  \<^verbatim>\<open>handlePromptsGet\<close>: the generators are given \<^verbatim>\<open>args\<close> alone, not the request.
\<close>

definition handlePromptsGet ::
  "env \<Rightarrow> MCPRequest \<Rightarrow> calls \<Rightarrow> MCPResponse promise \<times> calls" where
  "handlePromptsGet e request made =
     (case destructureParams (req_params request) of
        Inl err \<Rightarrow> (Rejected err, made)
      | Inr (name, args) \<Rightarrow>
          (if name = JStr ''weather-report'' then generateWeatherReportPrompt e args made
           else if name = JStr ''travel-weather-advice'' then generateTravelWeatherAdvicePrompt e args made
           else if name = JStr ''weather-comparison'' then generateWeatherComparisonPrompt e args made
           else (Fulfilled (createErrorResponse (req_id request) (- 32602) ''Unknown prompt''), made)))"

text \<open>
  \<^verbatim>\<open>handleRequest\<close>. Inside the \<^verbatim>\<open>try\<close> the \<^verbatim>\<open>switch\<close> returns either a response (the
  three synchronous handlers and the default case) or, without awaiting it, the promise
  of an \<^verbatim>\<open>async\<close> handler. The \<^verbatim>\<open>catch\<close> sees what is thrown while the block runs; the
  promise of \<^verbatim>\<open>handleRequest\<close> settles as a returned promise does.
\<close>

datatype returned = Value MCPResponse | Thenable "MCPResponse promise"

definition dispatch :: "env \<Rightarrow> MCPRequest \<Rightarrow> calls \<Rightarrow> (js_error + returned) \<times> calls" where
  "dispatch e request made =
     (if req_method request = ''initialize'' then (Inr (Value (handleInitialize request)), made)
      else if req_method request = ''tools/list'' then (Inr (Value (handleToolsList request)), made)
      else if req_method request = ''tools/call'' then
        (case handleToolsCall e request made of (p, made') \<Rightarrow> (Inr (Thenable p), made'))
      else if req_method request = ''prompts/list'' then (Inr (Value (handlePromptsList request)), made)
      else if req_method request = ''prompts/get'' then
        (case handlePromptsGet e request made of (p, made') \<Rightarrow> (Inr (Thenable p), made'))
      else (Inr (Value (createErrorResponse (req_id request) (- 32601) ''Method not found'')), made))"

definition handleRequest ::
  "env \<Rightarrow> MCPRequest \<Rightarrow> calls \<Rightarrow> MCPResponse promise \<times> calls" where
  "handleRequest e request made =
     (case dispatch e request made of
        (Inl err, made') \<Rightarrow>
          (Fulfilled (createErrorResponse (req_id request) (- 32603) ''Internal error''), made')
      | (Inr (Value response), made') \<Rightarrow> (Fulfilled response, made')
      | (Inr (Thenable p), made') \<Rightarrow> (p, made'))"

section \<open>The stdio server\<close>

text \<open>
  The handler \<^verbatim>\<open>setupToolHandlers\<close> registers for a tool call, in the TypeScript stdio
  server, which calls the same \<^verbatim>\<open>WeatherService\<close> as the HTTP service. It returns the
  result alone, with no envelope around it.
\<close>

definition callToolTry :: "env \<Rightarrow> jsval \<Rightarrow> calls \<Rightarrow> (js_error + jsval) \<times> calls" where
  "callToolTry e args made =
     (case getProp args ''city'' of
        Inl err \<Rightarrow> (Inl err, made)
      | Inr cityArg \<Rightarrow>
          (case getProp args ''units'' of
             Inl err \<Rightarrow> (Inl err, made)
           | Inr unitsArg \<Rightarrow>
               (case getWeatherByCity e cityArg (js_or unitsArg (JStr ''metric'')) made of
                  (Rejected err, made') \<Rightarrow> (Inl err, made')
                | (Fulfilled weather, made') \<Rightarrow>
                    (Inr (JObj [(''content'', textContent (formatWeatherForDisplay weather))]), made'))))"

definition callToolHandler :: "env \<Rightarrow> jsval \<Rightarrow> calls \<Rightarrow> jsval promise \<times> calls" where
  "callToolHandler e params made =
     (case destructureParams params of
        Inl err \<Rightarrow> (Rejected err, made)
      | Inr (name, args) \<Rightarrow>
          (if name = JStr ''get-weather'' then
             (case callToolTry e args made of
                (Inr res, made') \<Rightarrow> (Fulfilled res, made')
              | (Inl err, made') \<Rightarrow>
                  (Fulfilled (JObj [(''content'', textContent (''Error getting weather: '' @ message e err)),
                                    (''isError'', JBool True)]),
                   made'))
           else (case toStringJS name of
                   Inl err \<Rightarrow> (Rejected err, made)
                 | Inr nameText \<Rightarrow> (Rejected (Error (''Unknown tool: '' @ nameText)), made))))"

section \<open>An environment and requests for the examples\<close>

text \<open>
  No API key is configured, so the service answers with its mock data; every
  \<^verbatim>\<open>new Date()\<close> is the same instant.
\<close>

definition mockEnv :: env where
  "mockEnv =
     \<lparr> OPENWEATHER_API_KEY = None,
       axios_get = (\<lambda>n c u. HttpFailure None),
       newDate = (\<lambda>n. ''2024-01-01T00:00:00.000Z''),
       engineMessage = (\<lambda>t. ''TypeError'') \<rparr>"

text \<open>
  The request \<^verbatim>\<open>{jsonrpc: "2.0", id: i, method: m, params: p}\<close>, and the parameters
  \<^verbatim>\<open>{name: n, arguments: {...}}\<close> of a tool call or of a prompt.
\<close>

definition request :: "jsval \<Rightarrow> string \<Rightarrow> jsval \<Rightarrow> MCPRequest" where
  "request i m p = \<lparr> req_jsonrpc = ''2.0'', req_id = i, req_method = m, req_params = p \<rparr>"

definition named :: "string \<Rightarrow> (string \<times> jsval) list \<Rightarrow> jsval" where
  "named n kvs = JObj [(''name'', JStr n), (''arguments'', JObj kvs)]"

section \<open>Auxiliary facts\<close>

lemma getWeatherByCity_calls:
  "snd (getWeatherByCity e c u made) = made @ [(c, u)]"
  by (simp add: getWeatherByCity_def Let_def)

lemma getWeatherByCity_split:
  obtains p where "getWeatherByCity e c u made = (p, made @ [(c, u)])"
    and "p = fst (getWeatherByCity e c u made)"
  using getWeatherByCity_calls [of e c u made]
  by (cases "getWeatherByCity e c u made") auto

lemma js_or_defined: "js_or x (JStr ''metric'') \<noteq> JUndefined"
  by (cases x) (simp_all add: js_or_def)

lemma getWeatherByCity_blank:
  assumes "trim s = []" and "u \<noteq> JUndefined"
  shows "getWeatherByCity e (JStr s) u made =
           ((case toStringJS u of
               Inl err \<Rightarrow> Rejected err
             | Inr unitsText \<Rightarrow> Rejected (BadRequestException ''City name is required'')),
            made @ [(JStr s, u)])"
  using assms by (simp add: getWeatherByCity_def Let_def split: sum.splits)

lemma getWeatherByCity_mock:
  assumes "OPENWEATHER_API_KEY e = None" and "trim s \<noteq> []"
  shows "getWeatherByCity e (JStr s) (JStr ''metric'') made =
           (Fulfilled (getMockWeatherData s (JStr ''metric'') (newDate e (length made))),
            made @ [(JStr s, JStr ''metric'')])"
proof -
  have "s \<noteq> []" using assms(2) by (auto simp add: trim_def)
  then show ?thesis
    using assms by (simp add: getWeatherByCity_def apiKey_def Let_def)
qed

lemma destructureParams_present:
  assumes "p \<noteq> JUndefined" and "p \<noteq> JNull"
  shows "\<exists>name args. destructureParams p = Inr (name, args) \<and>
           getProp p ''name'' = Inr name \<and> getProp p ''arguments'' = Inr args"
  using assms by (cases p) auto

lemma getProp_other_key:
  assumes "getProp a k = Inr v"
  shows "\<exists>u. getProp a k' = Inr u"
  using assms by (cases a) auto

lemma js_or_string: "s \<noteq> [] \<Longrightarrow> js_or (JStr s) x = JStr s"
  by (simp add: js_or_def)

lemma fetchEach_calls:
  "snd (fetchEach e cs made) = made @ map (\<lambda>c. (JStr c, JStr ''metric'')) cs"
proof (induction cs arbitrary: made)
  case Nil
  show ?case by simp
next
  case (Cons c cs)
  have "snd (fetchEach e (c # cs) made) =
      snd (fetchEach e cs (snd (getWeatherByCity e (JStr c) (JStr ''metric'') made)))"
    by (simp split: prod.splits)
  then show ?case
    by (simp add: Cons.IH getWeatherByCity_calls)
qed

lemma fetchEach_promises:
  "fst (fetchEach e cs made) =
     map (\<lambda>i. fst (getWeatherByCity e (JStr (cs ! i)) (JStr ''metric'')
                      (made @ map (\<lambda>c. (JStr c, JStr ''metric'')) (take i cs))))
       [0..<length cs]"
proof (induction cs arbitrary: made)
  case Nil
  show ?case by simp
next
  case (Cons c cs)
  have step: "fst (fetchEach e (c # cs) made) =
      fst (getWeatherByCity e (JStr c) (JStr ''metric'') made) #
      fst (fetchEach e cs (made @ [(JStr c, JStr ''metric'')]))"
    using getWeatherByCity_calls [of e "JStr c" "JStr ''metric''" made]
    by (auto split: prod.splits)
  have idx: "[0..<length (c # cs)] = 0 # map Suc [0..<length cs]"
    by (simp add: upt_conv_Cons map_Suc_upt del: upt_Suc)
  show ?case
    unfolding step Cons.IH idx by (simp add: comp_def)
qed

lemma Promise_all_rejected:
  assumes "Rejected err \<in> set ps"
  shows "\<exists>err'. Promise_all ps = Rejected err'"
  using assms
proof (induction ps)
  case Nil
  then show ?case by simp
next
  case (Cons p ps)
  show ?case
  proof (cases p)
    case (Rejected x)
    then show ?thesis by simp
  next
    case (Fulfilled v)
    with Cons.prems have "Rejected err \<in> set ps" by simp
    then obtain err' where "Promise_all ps = Rejected err'"
      using Cons.IH by blast
    with Fulfilled show ?thesis by simp
  qed
qed

lemma Promise_all_fulfilled:
  "Promise_all (map Fulfilled ws) = Fulfilled ws"
  by (induction ws) simp_all

lemma numberToString_mock:
  "numberToString 22 = ''22''" "numberToString 24 = ''24''" "numberToString 65 = ''65''"
  "numberToString 1013 = ''1013''" "numberToString 180 = ''180''"
  "numberToString (26 / 5) = ''5.2''" "numberToString 10 = ''10''"
  by code_simp+

lemma capitalise_London:
  "toUpperCase ''L'' = ''L''" "toLowerCase ''ondon'' = ''ondon''"
  by code_simp+

lemma trim_examples:
  "trim '''' = []" "trim ''  '' = []" "trim ''London'' = ''London''"
  "trim ''Paris'' = ''Paris''" "trim ''Tokyo'' = ''Tokyo''"
  by code_simp+

lemma format_mock_London:
  "formatWeatherForDisplay (getMockWeatherData ''London'' (JStr ''metric'') t) =
     ''Weather in London, XX:\<newline>Temperature: 22'' @ [CHR 0xB0] @ ''C (feels like 24'' @ [CHR 0xB0] @
     ''C)\<newline>Condition: partly cloudy\<newline>Humidity: 65%\<newline>Pressure: 1013 hPa\<newline>Wind: 5.2 m/s at 180'' @
     [CHR 0xB0] @ ''\<newline>Visibility: 10 km\<newline>Last updated: '' @ t"
  unfolding formatWeatherForDisplay_def getMockWeatherData_def Let_def
  by (simp add: numberToString_mock capitalise_London)

lemma mockEnv_no_key: "OPENWEATHER_API_KEY mockEnv = None"
  by (simp add: mockEnv_def)

lemma mockEnv_newDate: "newDate mockEnv n = ''2024-01-01T00:00:00.000Z''"
  by (simp add: mockEnv_def)

section \<open>The claims\<close>

text \<open>
  C1. \<^verbatim>\<open>handleRequest\<close> is meant to answer every request with an envelope, turning a
  failure inside a handler into the error -32603. It does not: a \<^verbatim>\<open>tools/call\<close> request
  with no parameters, and a \<^verbatim>\<open>weather-report\<close> prompt for a city of blanks, both end in a
  rejected promise, in every environment. The \<^verbatim>\<open>try\<close> of \<^verbatim>\<open>handleRequest\<close> returns the
  promise of the handler without awaiting it, so its \<^verbatim>\<open>catch\<close> never sees the rejection.
\<close>

theorem handle_not_total:
  "handleRequest e (request (JNum 1) ''tools/call'' JUndefined) [] =
     (Rejected (TypeError CannotDestructure), [])
   \<and> handleRequest e
       (request (JNum 2) ''prompts/get'' (named ''weather-report'' [(''city'', JStr ''  '')])) [] =
     (Rejected (BadRequestException ''City name is required''), [(JStr ''  '', JStr ''metric'')])"
  by (simp add: request_def named_def handleRequest_def dispatch_def handleToolsCall_def
        handlePromptsGet_def generateWeatherReportPrompt_def js_or_def getWeatherByCity_blank
        trim_examples)

text \<open>
  C2. The response to a request of a recognised method should carry the id of the
  request. For \<^verbatim>\<open>prompts/get\<close> it does not: the three generators write the id \<^verbatim>\<open>1\<close>. Here
  the request has the id 7, and the response, a result with no error, has the id 1.
\<close>

theorem prompt_response_id_is_one:
  "(case fst (handleRequest mockEnv
       (request (JNum 7) ''prompts/get'' (named ''weather-report'' [(''city'', JStr ''London'')])) []) of
      Fulfilled response \<Rightarrow>
        resp_id response = JNum 1 \<and> resp_id response \<noteq> JNum 7 \<and>
        resp_result response \<noteq> None \<and> resp_error response = None
    | Rejected err \<Rightarrow> False)"
  by code_simp

text \<open>
  C3. A request whose method is none of \<^verbatim>\<open>initialize\<close>, \<^verbatim>\<open>tools/list\<close>, \<^verbatim>\<open>tools/call\<close>,
  \<^verbatim>\<open>prompts/list\<close> and \<^verbatim>\<open>prompts/get\<close> is answered with the error envelope of code -32601
  and message "Method not found", whatever its id and parameters are.
\<close>

theorem unknown_method_not_found:
  assumes "req_method r \<notin> {''initialize'', ''tools/list'', ''tools/call'', ''prompts/list'', ''prompts/get''}"
  shows "handleRequest e r made =
           (Fulfilled \<lparr> resp_jsonrpc = ''2.0'', resp_id = req_id r, resp_result = None,
                        resp_error = Some \<lparr> err_code = - 32601, err_message = ''Method not found'' \<rparr> \<rparr>,
            made)"
  using assms by (simp add: handleRequest_def dispatch_def createErrorResponse_def)

theorem unknown_method_not_found_witness:
  "handleRequest mockEnv (request (JNum 1) ''bogus'' JUndefined) [] =
   (Fulfilled \<lparr> resp_jsonrpc = ''2.0'', resp_id = JNum 1, resp_result = None,
                resp_error = Some \<lparr> err_code = - 32601, err_message = ''Method not found'' \<rparr> \<rparr>,
    [])"
  using unknown_method_not_found [of "request (JNum 1) ''bogus'' JUndefined" mockEnv "[]"]
  by (simp add: request_def)

text \<open>
  C4. A \<^verbatim>\<open>tools/call\<close> request whose parameters are there and whose \<^verbatim>\<open>params.name\<close> is
  not \<^verbatim>\<open>get-weather\<close> (another string, any other value, or no name at all) is answered
  by the HTTP service with the error envelope of code -32602 and message "Unknown
  tool". The handler of the stdio server, given the same parameters, rejects: with
  the error "Unknown tool: " followed by the name, when the name can be printed.
  Neither makes a fetch.
\<close>

theorem unknown_tool_rejected:
  assumes "req_method r = ''tools/call''"
      and "req_params r \<noteq> JUndefined" and "req_params r \<noteq> JNull"
      and "getProp (req_params r) ''name'' = Inr name"
      and "name \<noteq> JStr ''get-weather''"
  shows "handleRequest e r made =
           (Fulfilled \<lparr> resp_jsonrpc = ''2.0'', resp_id = req_id r, resp_result = None,
                        resp_error = Some \<lparr> err_code = - 32602, err_message = ''Unknown tool'' \<rparr> \<rparr>,
            made)
         \<and> callToolHandler e (req_params r) made =
           (Rejected (case toStringJS name of
                        Inl err \<Rightarrow> err
                      | Inr nameText \<Rightarrow> Error (''Unknown tool: '' @ nameText)),
            made)"
proof -
  obtain n a where d: "destructureParams (req_params r) = Inr (n, a)"
    and n: "getProp (req_params r) ''name'' = Inr n"
    using destructureParams_present [OF assms(2,3)] by blast
  from n assms(4) have "n = name" by simp
  with d assms(1,5) show ?thesis
    by (simp add: handleRequest_def dispatch_def handleToolsCall_def callToolHandler_def
          createErrorResponse_def split: sum.splits)
qed

theorem unknown_tool_rejected_witness:
  "handleRequest mockEnv (request (JNum 5) ''tools/call'' (named ''unknown-tool'' [])) [] =
     (Fulfilled \<lparr> resp_jsonrpc = ''2.0'', resp_id = JNum 5, resp_result = None,
                  resp_error = Some \<lparr> err_code = - 32602, err_message = ''Unknown tool'' \<rparr> \<rparr>,
      [])
   \<and> callToolHandler mockEnv (named ''unknown-tool'' []) [] =
     (Rejected (Error ''Unknown tool: unknown-tool''), [])"
  using unknown_tool_rejected
    [of "request (JNum 5) ''tools/call'' (named ''unknown-tool'' [])" "JStr ''unknown-tool''"
        mockEnv "[]"]
  by (simp add: request_def named_def)

text \<open>
  C5. With no API key configured, the tool call \<^verbatim>\<open>get-weather\<close> for the city London,
  with no units given, succeeds: the result has one text item, which starts with
  "Weather in London, XX:" and gives the temperature as 22 degrees Celsius, the
  metric mock value. One fetch was made, for London with the units \<^verbatim>\<open>metric\<close>.
\<close>

theorem get_weather_london_mock:
  assumes "OPENWEATHER_API_KEY e = None"
  shows "handleRequest e
           \<lparr> req_jsonrpc = v, req_id = i, req_method = ''tools/call'',
             req_params = JObj [(''name'', JStr ''get-weather''),
                                (''arguments'', JObj [(''city'', JStr ''London'')])] \<rparr> made =
         (Fulfilled
            \<lparr> resp_jsonrpc = ''2.0'', resp_id = i,
              resp_result =
                Some (JObj [(''content'',
                  JArr [JObj [(''type'', JStr ''text''),
                              (''text'',
                               JStr (''Weather in London, XX:\<newline>Temperature: 22'' @ [CHR 0xB0] @
                                     ''C (feels like 24'' @ [CHR 0xB0] @
                                     ''C)\<newline>Condition: partly cloudy\<newline>Humidity: 65%\<newline>Pressure: 1013 hPa\<newline>Wind: 5.2 m/s at 180'' @
                                     [CHR 0xB0] @ ''\<newline>Visibility: 10 km\<newline>Last updated: '' @
                                     newDate e (length made)))]])]),
              resp_error = None \<rparr>,
          made @ [(JStr ''London'', JStr ''metric'')])"
proof -
  have fetch: "getWeatherByCity e (JStr ''London'') (JStr ''metric'') made =
      (Fulfilled (getMockWeatherData ''London'' (JStr ''metric'') (newDate e (length made))),
       made @ [(JStr ''London'', JStr ''metric'')])"
    using assms by (simp add: getWeatherByCity_mock trim_examples)
  show ?thesis
    by (simp add: handleRequest_def dispatch_def handleToolsCall_def toolsCallTry_def js_or_def
          fetch format_mock_London textContent_def)
qed

theorem get_weather_london_mock_witness:
  "OPENWEATHER_API_KEY mockEnv = None \<and>
   handleRequest mockEnv
     (request (JNum 1) ''tools/call'' (named ''get-weather'' [(''city'', JStr ''London'')])) [] =
   (Fulfilled
      \<lparr> resp_jsonrpc = ''2.0'', resp_id = JNum 1,
        resp_result =
          Some (JObj [(''content'',
            JArr [JObj [(''type'', JStr ''text''),
                        (''text'',
                         JStr (''Weather in London, XX:\<newline>Temperature: 22'' @ [CHR 0xB0] @
                               ''C (feels like 24'' @ [CHR 0xB0] @
                               ''C)\<newline>Condition: partly cloudy\<newline>Humidity: 65%\<newline>Pressure: 1013 hPa\<newline>Wind: 5.2 m/s at 180'' @
                               [CHR 0xB0] @ ''\<newline>Visibility: 10 km\<newline>Last updated: 2024-01-01T00:00:00.000Z''))]])]),
        resp_error = None \<rparr>,
    [(JStr ''London'', JStr ''metric'')])"
  using get_weather_london_mock [OF mockEnv_no_key, of "''2.0''" "JNum 1" "[]"]
  by (simp add: mockEnv_no_key mockEnv_newDate request_def named_def)

text \<open>
  C6. A \<^verbatim>\<open>get-weather\<close> tool call whose city is the empty string, or white space only,
  fails in the weather service, in every environment, and the failure comes back in a
  fulfilled promise: the HTTP service answers with the error envelope of code -32603
  whose message is "Weather service error: " and the message of the failure, the
  handler of the stdio server with a result flagged \<^verbatim>\<open>isError\<close> whose text is "Error
  getting weather: " and that message. The message is "City name is required" whenever
  the units can be printed (no units, a string, a number, a boolean, \<^verbatim>\<open>null\<close>, an object
  or array with no property \<^verbatim>\<open>toString\<close> in it). For units that cannot be printed the log
  statement of the service throws before the city is tested, and the message is the
  one the engine gives to that \<^verbatim>\<open>TypeError\<close>.
\<close>

theorem blank_city_fails:
  assumes "req_method r = ''tools/call''"
      and "req_params r \<noteq> JUndefined" and "req_params r \<noteq> JNull"
      and "getProp (req_params r) ''name'' = Inr (JStr ''get-weather'')"
      and "getProp (req_params r) ''arguments'' = Inr args"
      and "getProp args ''city'' = Inr (JStr s)"
      and "trim s = []"
      and "getProp args ''units'' = Inr u"
  shows "fst (handleRequest e r made) =
           Fulfilled \<lparr> resp_jsonrpc = ''2.0'', resp_id = req_id r, resp_result = None,
                       resp_error = Some \<lparr> err_code = - 32603,
                         err_message =
                           ''Weather service error: '' @
                           (case toStringJS (js_or u (JStr ''metric'')) of
                              Inr unitsText \<Rightarrow> ''City name is required''
                            | Inl err \<Rightarrow> message e err) \<rparr> \<rparr>
         \<and> fst (callToolHandler e (req_params r) made) =
           Fulfilled (JObj [(''content'',
                             JArr [JObj [(''type'', JStr ''text''),
                                         (''text'',
                                          JStr (''Error getting weather: '' @
                                            (case toStringJS (js_or u (JStr ''metric'')) of
                                               Inr unitsText \<Rightarrow> ''City name is required''
                                             | Inl err \<Rightarrow> message e err)))]]),
                            (''isError'', JBool True)])"
proof -
  obtain n a where d: "destructureParams (req_params r) = Inr (n, a)"
    and n: "getProp (req_params r) ''name'' = Inr n"
    and a: "getProp (req_params r) ''arguments'' = Inr a"
    using destructureParams_present [OF assms(2,3)] by blast
  from n a assms(4,5) have na: "n = JStr ''get-weather''" "a = args" by simp_all
  show ?thesis
    using assms(1)
    by (simp add: handleRequest_def dispatch_def handleToolsCall_def callToolHandler_def
          toolsCallTry_def callToolTry_def d na assms(6,8)
          getWeatherByCity_blank [OF assms(7) js_or_defined] createErrorResponse_def
          textContent_def split: sum.splits)
qed

theorem blank_city_fails_witness:
  "fst (handleRequest mockEnv
     (request (JNum 6) ''tools/call''
        (named ''get-weather'' [(''city'', JStr ''''), (''units'', JStr ''imperial'')])) []) =
     Fulfilled \<lparr> resp_jsonrpc = ''2.0'', resp_id = JNum 6, resp_result = None,
                 resp_error = Some \<lparr> err_code = - 32603,
                   err_message = ''Weather service error: City name is required'' \<rparr> \<rparr>
   \<and> fst (callToolHandler mockEnv
          (named ''get-weather'' [(''city'', JStr ''''), (''units'', JStr ''imperial'')]) []) =
     Fulfilled (JObj [(''content'',
                       JArr [JObj [(''type'', JStr ''text''),
                                   (''text'', JStr ''Error getting weather: City name is required'')]]),
                      (''isError'', JBool True)])
   \<and> fst (handleRequest mockEnv
     (request (JNum 7) ''tools/call''
        (named ''get-weather''
           [(''city'', JStr ''  ''), (''units'', JObj [(''toString'', JNum 1)])])) []) =
     Fulfilled \<lparr> resp_jsonrpc = ''2.0'', resp_id = JNum 7, resp_result = None,
                 resp_error = Some \<lparr> err_code = - 32603,
                   err_message = ''Weather service error: TypeError'' \<rparr> \<rparr>"
  using blank_city_fails
    [of "request (JNum 6) ''tools/call''
           (named ''get-weather'' [(''city'', JStr ''''), (''units'', JStr ''imperial'')])"
        "JObj [(''city'', JStr ''''), (''units'', JStr ''imperial'')]" "''''"
        "JStr ''imperial''" mockEnv "[]"]
    blank_city_fails
    [of "request (JNum 7) ''tools/call''
           (named ''get-weather''
              [(''city'', JStr ''  ''), (''units'', JObj [(''toString'', JNum 1)])])"
        "JObj [(''city'', JStr ''  ''), (''units'', JObj [(''toString'', JNum 1)])]" "''  ''"
        "JObj [(''toString'', JNum 1)]" mockEnv "[]"]
  by (simp add: request_def named_def trim_examples js_or_def mockEnv_def)

text \<open>
  C7. A \<^verbatim>\<open>prompts/get\<close> request for \<^verbatim>\<open>weather-comparison\<close> whose arguments give two
  cities, non-empty strings, makes exactly two fetches, the first city and then the
  second, both with the units \<^verbatim>\<open>metric\<close>, whatever else the arguments hold (a
  \<^verbatim>\<open>units\<close> argument is never read). When both fetches are fulfilled, the response is a
  result with one message of the role \<^verbatim>\<open>user\<close>, whose text has a section headed by the
  first city between two asterisks on each side and a colon, with the formatted
  weather of the first fetch, and then such a section for the second.
\<close>

theorem weather_comparison_sections:
  assumes "req_method r = ''prompts/get''"
      and "req_params r \<noteq> JUndefined" and "req_params r \<noteq> JNull"
      and "getProp (req_params r) ''name'' = Inr (JStr ''weather-comparison'')"
      and "getProp (req_params r) ''arguments'' = Inr args"
      and "getProp args ''city1'' = Inr (JStr c1)"
      and "getProp args ''city2'' = Inr (JStr c2)"
      and "c1 \<noteq> []" and "c2 \<noteq> []"
  shows "snd (handleRequest e r made) =
           made @ [(JStr c1, JStr ''metric''), (JStr c2, JStr ''metric'')]
         \<and> (\<forall>w1 w2.
               fst (getWeatherByCity e (JStr c1) (JStr ''metric'') made) = Fulfilled w1 \<and>
               fst (getWeatherByCity e (JStr c2) (JStr ''metric'')
                      (made @ [(JStr c1, JStr ''metric'')])) = Fulfilled w2 \<longrightarrow>
               (\<exists>response.
                  fst (handleRequest e r made) = Fulfilled response \<and>
                  resp_error response = None \<and>
                  resp_result response =
                    Some (JObj [(''description'',
                                 JStr (''Weather comparison between '' @ c1 @ '' and '' @ c2)),
                                (''messages'',
                                 JArr [JObj [(''role'', JStr ''user''),
                                             (''content'',
                                              JObj [(''type'', JStr ''text''),
                                                    (''text'',
                                                     JStr (comparisonIntro @
                                                       ''**'' @ c1 @ '':**\<newline>'' @ formatWeatherForDisplay w1 @
                                                       ''\<newline>\<newline>**'' @ c2 @ '':**\<newline>'' @ formatWeatherForDisplay w2 @
                                                       comparisonOutro))])]])])))"
proof -
  obtain n a where d: "destructureParams (req_params r) = Inr (n, a)"
    and n: "getProp (req_params r) ''name'' = Inr n"
    and a: "getProp (req_params r) ''arguments'' = Inr a"
    using destructureParams_present [OF assms(2,3)] by blast
  from n a assms(4,5) have na: "n = JStr ''weather-comparison''" "a = args" by simp_all
  obtain p1 where p1: "getWeatherByCity e (JStr c1) (JStr ''metric'') made =
      (p1, made @ [(JStr c1, JStr ''metric'')])"
    and p1': "p1 = fst (getWeatherByCity e (JStr c1) (JStr ''metric'') made)"
    by (rule getWeatherByCity_split)
  obtain p2 where p2: "getWeatherByCity e (JStr c2) (JStr ''metric'')
        (made @ [(JStr c1, JStr ''metric'')]) =
      (p2, (made @ [(JStr c1, JStr ''metric'')]) @ [(JStr c2, JStr ''metric'')])"
    and p2': "p2 = fst (getWeatherByCity e (JStr c2) (JStr ''metric'')
        (made @ [(JStr c1, JStr ''metric'')]))"
    by (rule getWeatherByCity_split)
  have run: "handleRequest e r made =
      (case Promise_all [p1, p2] of
         Fulfilled [weather1, weather2] \<Rightarrow>
           (Fulfilled
              (promptResponse (''Weather comparison between '' @ c1 @ '' and '' @ c2)
                 (userMessages
                    (weatherComparisonText c1 (formatWeatherForDisplay weather1)
                       c2 (formatWeatherForDisplay weather2)))),
            made @ [(JStr c1, JStr ''metric''), (JStr c2, JStr ''metric'')])
       | Fulfilled other \<Rightarrow>
           (Rejected (TypeError CannotDestructure),
            made @ [(JStr c1, JStr ''metric''), (JStr c2, JStr ''metric'')])
       | Rejected err \<Rightarrow>
           (Rejected err, made @ [(JStr c1, JStr ''metric''), (JStr c2, JStr ''metric'')]))"
    using assms(1,8,9)
    by (simp add: handleRequest_def dispatch_def handlePromptsGet_def d na
          generateWeatherComparisonPrompt_def assms(6,7) js_or_def p1 p2
          split: promise.splits list.splits)
  have issued: "snd (handleRequest e r made) =
      made @ [(JStr c1, JStr ''metric''), (JStr c2, JStr ''metric'')]"
    unfolding run by (cases p1; cases p2) simp_all
  have msg: "\<exists>response.
        fst (handleRequest e r made) = Fulfilled response \<and>
        resp_error response = None \<and>
        resp_result response =
          Some (JObj [(''description'',
                       JStr (''Weather comparison between '' @ c1 @ '' and '' @ c2)),
                      (''messages'',
                       JArr [JObj [(''role'', JStr ''user''),
                                   (''content'',
                                    JObj [(''type'', JStr ''text''),
                                          (''text'',
                                           JStr (comparisonIntro @
                                             ''**'' @ c1 @ '':**\<newline>'' @ formatWeatherForDisplay w1 @
                                             ''\<newline>\<newline>**'' @ c2 @ '':**\<newline>'' @ formatWeatherForDisplay w2 @
                                             comparisonOutro))])]])])"
    if "p1 = Fulfilled w1" and "p2 = Fulfilled w2" for w1 w2
  proof -
    have "fst (handleRequest e r made) =
        Fulfilled (promptResponse (''Weather comparison between '' @ c1 @ '' and '' @ c2)
          (userMessages (weatherComparisonText c1 (formatWeatherForDisplay w1)
             c2 (formatWeatherForDisplay w2))))"
      unfolding run using that by simp
    then show ?thesis
      by (simp add: promptResponse_def userMessages_def weatherComparisonText_def)
  qed
  show ?thesis
    using issued msg p1' p2' by blast
qed

theorem weather_comparison_sections_witness:
  "snd (handleRequest mockEnv
      (request (JNum 8) ''prompts/get''
         (named ''weather-comparison''
            [(''city1'', JStr ''Paris''), (''city2'', JStr ''Tokyo''), (''units'', JStr ''imperial'')])) []) =
     [(JStr ''Paris'', JStr ''metric''), (JStr ''Tokyo'', JStr ''metric'')]
   \<and> (\<exists>response.
        fst (handleRequest mockEnv
          (request (JNum 8) ''prompts/get''
             (named ''weather-comparison''
                [(''city1'', JStr ''Paris''), (''city2'', JStr ''Tokyo''), (''units'', JStr ''imperial'')])) []) =
          Fulfilled response \<and>
        resp_error response = None \<and>
        resp_result response =
          Some (JObj [(''description'', JStr ''Weather comparison between Paris and Tokyo''),
                      (''messages'',
                       JArr [JObj [(''role'', JStr ''user''),
                                   (''content'',
                                    JObj [(''type'', JStr ''text''),
                                          (''text'',
                                           JStr (comparisonIntro @
                                             ''**Paris:**\<newline>'' @
                                             formatWeatherForDisplay
                                               (getMockWeatherData ''Paris'' (JStr ''metric'')
                                                  ''2024-01-01T00:00:00.000Z'') @
                                             ''\<newline>\<newline>**Tokyo:**\<newline>'' @
                                             formatWeatherForDisplay
                                               (getMockWeatherData ''Tokyo'' (JStr ''metric'')
                                                  ''2024-01-01T00:00:00.000Z'') @
                                             comparisonOutro))])]])]))"
  using weather_comparison_sections
    [of "request (JNum 8) ''prompts/get''
           (named ''weather-comparison''
              [(''city1'', JStr ''Paris''), (''city2'', JStr ''Tokyo''), (''units'', JStr ''imperial'')])"
        "JObj [(''city1'', JStr ''Paris''), (''city2'', JStr ''Tokyo''), (''units'', JStr ''imperial'')]"
        "''Paris''" "''Tokyo''" mockEnv "[]"]
  by (simp add: request_def named_def getWeatherByCity_mock mockEnv_no_key mockEnv_newDate
        trim_examples)

text \<open>
  C8. A \<^verbatim>\<open>prompts/get\<close> request for \<^verbatim>\<open>travel-weather-advice\<close>. The list of cities \<open>s\<close> is the
  \<^verbatim>\<open>cities\<close> argument when that is a non-empty string, and "London,Paris" when the
  argument is absent or falsy. The cities are the pieces of \<open>s\<close> between its commas,
  each trimmed. One fetch is made for each of them, in their order, with the units
  \<^verbatim>\<open>metric\<close>, and no other (\<open>fetches\<close> lists the promises of these calls). If one of the
  fetches is rejected, the promise of the request is rejected: there is no response
  with the results of the others. If all are fulfilled, and the travel date can be
  printed, the response is a result with one message of the role \<^verbatim>\<open>user\<close>: its text is
  the opening sentence with the travel date, an empty line, the formatted weather
  blocks in the order of the cities with an empty line between one and the next, an
  empty line, and the five requests.
\<close>

theorem travel_advice_all_or_nothing:
  assumes "req_method r = ''prompts/get''"
      and "req_params r \<noteq> JUndefined" and "req_params r \<noteq> JNull"
      and "getProp (req_params r) ''name'' = Inr (JStr ''travel-weather-advice'')"
      and "getProp (req_params r) ''arguments'' = Inr args"
      and "getProp args ''cities'' = Inr c"
      and "js_or c (JStr ''London,Paris'') = JStr s"
      and "getProp args ''travel_date'' = Inr d"
      and "cities = map trim (split CHR '','' s)"
      and "fetches =
             map (\<lambda>i. fst (getWeatherByCity e (JStr (cities ! i)) (JStr ''metric'')
                              (made @ map (\<lambda>c. (JStr c, JStr ''metric'')) (take i cities))))
               [0..<length cities]"
  shows "snd (handleRequest e r made) = made @ map (\<lambda>c. (JStr c, JStr ''metric'')) cities
         \<and> ((\<exists>err. Rejected err \<in> set fetches) \<longrightarrow>
              (\<exists>err. fst (handleRequest e r made) = Rejected err))
         \<and> (\<forall>ws dateText.
               fetches = map Fulfilled ws \<and>
               toStringJS (js_or d (JStr ''today'')) = Inr dateText \<longrightarrow>
               (\<exists>response.
                  fst (handleRequest e r made) = Fulfilled response \<and>
                  resp_error response = None \<and>
                  resp_result response =
                    Some (JObj [(''description'',
                                 JStr (''Travel weather advice for '' @ join '', '' cities)),
                                (''messages'',
                                 JArr [JObj [(''role'', JStr ''user''),
                                             (''content'',
                                              JObj [(''type'', JStr ''text''),
                                                    (''text'',
                                                     JStr (''I'' @ [CHR 0x27] @
                                                       ''m planning to travel to these cities '' @ dateText @
                                                       ''. Please analyze the weather conditions and provide travel advice:\<newline>\<newline>'' @
                                                       join ''\<newline>\<newline>'' (map formatWeatherForDisplay ws) @
                                                       ''\<newline>\<newline>Please provide:\<newline>- Best city for outdoor activities\<newline>- Packing recommendations\<newline>- Transportation considerations\<newline>- Best times to visit each location\<newline>- Any weather-related travel warnings''))])]])])))"
proof -
  let ?made' = "made @ map (\<lambda>c. (JStr c, JStr ''metric'')) cities"
  obtain n a where dp: "destructureParams (req_params r) = Inr (n, a)"
    and n: "getProp (req_params r) ''name'' = Inr n"
    and a: "getProp (req_params r) ''arguments'' = Inr a"
    using destructureParams_present [OF assms(2,3)] by blast
  from n a assms(4,5) have na: "n = JStr ''travel-weather-advice''" "a = args" by simp_all
  have fe: "fetchEach e cities made = (fetches, ?made')"
    by (simp add: prod_eq_iff fetchEach_promises fetchEach_calls assms(10))
  have run: "handleRequest e r made =
      (case Promise_all fetches of
         Rejected err \<Rightarrow> (Rejected err, ?made')
       | Fulfilled weatherResults \<Rightarrow>
           (case toStringJS (js_or d (JStr ''today'')) of
              Inl err \<Rightarrow> (Rejected err, ?made')
            | Inr dateText \<Rightarrow>
                (Fulfilled
                   (promptResponse (''Travel weather advice for '' @ join '', '' cities)
                      (userMessages
                         (travelAdviceText dateText
                            (join ''\<newline>\<newline>'' (map formatWeatherForDisplay weatherResults))))),
                 ?made')))"
    using assms(1)
    by (simp add: handleRequest_def dispatch_def handlePromptsGet_def dp na
          generateTravelWeatherAdvicePrompt_def assms(6,7,8) fe Let_def
          assms(9) [symmetric] split: promise.splits sum.splits)
  have issued: "snd (handleRequest e r made) = ?made'"
    unfolding run by (simp split: promise.splits sum.splits)
  have failing: "\<exists>err. fst (handleRequest e r made) = Rejected err"
    if rej: "Rejected err0 \<in> set fetches" for err0
  proof -
    obtain err' where "Promise_all fetches = Rejected err'"
      using Promise_all_rejected [OF rej] by blast
    then show ?thesis unfolding run by simp
  qed
  have succeeding: "\<exists>response.
        fst (handleRequest e r made) = Fulfilled response \<and>
        resp_error response = None \<and>
        resp_result response =
          Some (JObj [(''description'',
                       JStr (''Travel weather advice for '' @ join '', '' cities)),
                      (''messages'',
                       JArr [JObj [(''role'', JStr ''user''),
                                   (''content'',
                                    JObj [(''type'', JStr ''text''),
                                          (''text'',
                                           JStr (''I'' @ [CHR 0x27] @
                                             ''m planning to travel to these cities '' @ dateText @
                                             ''. Please analyze the weather conditions and provide travel advice:\<newline>\<newline>'' @
                                             join ''\<newline>\<newline>'' (map formatWeatherForDisplay ws) @
                                             ''\<newline>\<newline>Please provide:\<newline>- Best city for outdoor activities\<newline>- Packing recommendations\<newline>- Transportation considerations\<newline>- Best times to visit each location\<newline>- Any weather-related travel warnings''))])]])])"
    if "fetches = map Fulfilled ws" and "toStringJS (js_or d (JStr ''today'')) = Inr dateText"
    for ws dateText
    unfolding run using that
    by (simp add: Promise_all_fulfilled promptResponse_def userMessages_def travelAdviceText_def)
  show ?thesis
    using issued failing succeeding by blast
qed

theorem travel_advice_all_or_nothing_witness:
  "snd (handleRequest mockEnv
     (request (JNum 9) ''prompts/get''
        (named ''travel-weather-advice'' [(''cities'', JStr ''A, B ,C'')])) []) =
     [(JStr ''A'', JStr ''metric''), (JStr ''B'', JStr ''metric''), (JStr ''C'', JStr ''metric'')]
   \<and> (\<exists>response.
        fst (handleRequest mockEnv
          (request (JNum 9) ''prompts/get''
             (named ''travel-weather-advice'' [(''cities'', JStr ''A, B ,C'')])) []) =
          Fulfilled response \<and>
        resp_error response = None \<and>
        resp_result response =
          Some (JObj [(''description'', JStr ''Travel weather advice for A, B, C''),
                      (''messages'',
                       JArr [JObj [(''role'', JStr ''user''),
                                   (''content'',
                                    JObj [(''type'', JStr ''text''),
                                          (''text'',
                                           JStr (''I'' @ [CHR 0x27] @
                                             ''m planning to travel to these cities today. Please analyze the weather conditions and provide travel advice:\<newline>\<newline>'' @
                                             formatWeatherForDisplay
                                               (getMockWeatherData ''A'' (JStr ''metric'') ''2024-01-01T00:00:00.000Z'') @
                                             ''\<newline>\<newline>'' @
                                             formatWeatherForDisplay
                                               (getMockWeatherData ''B'' (JStr ''metric'') ''2024-01-01T00:00:00.000Z'') @
                                             ''\<newline>\<newline>'' @
                                             formatWeatherForDisplay
                                               (getMockWeatherData ''C'' (JStr ''metric'') ''2024-01-01T00:00:00.000Z'') @
                                             ''\<newline>\<newline>Please provide:\<newline>- Best city for outdoor activities\<newline>- Packing recommendations\<newline>- Transportation considerations\<newline>- Best times to visit each location\<newline>- Any weather-related travel warnings''))])]])]))
   \<and> (\<exists>err.
        fst (handleRequest mockEnv
          (request (JNum 10) ''prompts/get''
             (named ''travel-weather-advice'' [(''cities'', JStr ''A,,C'')])) []) =
          Rejected err)
   \<and> snd (handleRequest mockEnv
        (request (JNum 11) ''prompts/get'' (named ''travel-weather-advice'' [])) []) =
     [(JStr ''London'', JStr ''metric''), (JStr ''Paris'', JStr ''metric'')]"
proof -
  let ?fetches = "\<lambda>cities.
      map (\<lambda>i. fst (getWeatherByCity mockEnv (JStr (cities ! i)) (JStr ''metric'')
                       ([] @ map (\<lambda>c. (JStr c, JStr ''metric'')) (take i cities))))
        [0..<length cities]"
  let ?ok = "request (JNum 9) ''prompts/get''
      (named ''travel-weather-advice'' [(''cities'', JStr ''A, B ,C'')])"
  let ?ko = "request (JNum 10) ''prompts/get''
      (named ''travel-weather-advice'' [(''cities'', JStr ''A,,C'')])"
  let ?dflt = "request (JNum 11) ''prompts/get'' (named ''travel-weather-advice'' [])"
  let ?outro = "''\<newline>\<newline>Please provide:\<newline>- Best city for outdoor activities\<newline>- Packing recommendations\<newline>- Transportation considerations\<newline>- Best times to visit each location\<newline>- Any weather-related travel warnings''"
  have c1: "[''A'', ''B'', ''C''] = map trim (split CHR '','' ''A, B ,C'')"
    by code_simp
  have c2: "[''A'', '''', ''C''] = map trim (split CHR '','' ''A,,C'')"
    by code_simp
  have c3: "[''London'', ''Paris''] = map trim (split CHR '','' ''London,Paris'')"
    by code_simp
  have f1: "?fetches [''A'', ''B'', ''C''] =
      map Fulfilled
        [getMockWeatherData ''A'' (JStr ''metric'') ''2024-01-01T00:00:00.000Z'',
         getMockWeatherData ''B'' (JStr ''metric'') ''2024-01-01T00:00:00.000Z'',
         getMockWeatherData ''C'' (JStr ''metric'') ''2024-01-01T00:00:00.000Z'']"
    by code_simp
  have f2: "Rejected (BadRequestException ''City name is required'') \<in> set (?fetches [''A'', '''', ''C''])"
    by code_simp
  have d: "toStringJS (js_or JUndefined (JStr ''today'')) = Inr ''today''"
    by (simp add: js_or_def)
  have j: "join '', '' [''A'', ''B'', ''C''] = ''A, B, C''"
    by simp
  have ok: "snd (handleRequest mockEnv ?ok []) =
       [] @ map (\<lambda>c. (JStr c, JStr ''metric'')) [''A'', ''B'', ''C'']
     \<and> (\<forall>ws dateText.
           ?fetches [''A'', ''B'', ''C''] = map Fulfilled ws \<and>
           toStringJS (js_or JUndefined (JStr ''today'')) = Inr dateText \<longrightarrow>
           (\<exists>response.
              fst (handleRequest mockEnv ?ok []) = Fulfilled response \<and>
              resp_error response = None \<and>
              resp_result response =
                Some (JObj [(''description'',
                             JStr (''Travel weather advice for '' @ join '', '' [''A'', ''B'', ''C''])),
                            (''messages'',
                             JArr [JObj [(''role'', JStr ''user''),
                                         (''content'',
                                          JObj [(''type'', JStr ''text''),
                                                (''text'',
                                                 JStr (''I'' @ [CHR 0x27] @
                                                   ''m planning to travel to these cities '' @ dateText @
                                                   ''. Please analyze the weather conditions and provide travel advice:\<newline>\<newline>'' @
                                                   join ''\<newline>\<newline>'' (map formatWeatherForDisplay ws) @
                                                   ?outro))])]])])))"
    using travel_advice_all_or_nothing
      [of ?ok "JObj [(''cities'', JStr ''A, B ,C'')]" "JStr ''A, B ,C''" "''A, B ,C''" JUndefined
          "[''A'', ''B'', ''C'']" "?fetches [''A'', ''B'', ''C'']" mockEnv "[]",
       OF _ _ _ _ _ _ _ _ c1 refl]
    by (simp add: request_def named_def js_or_def)
  have ko: "(\<exists>err. Rejected err \<in> set (?fetches [''A'', '''', ''C''])) \<longrightarrow>
      (\<exists>err. fst (handleRequest mockEnv ?ko []) = Rejected err)"
    using travel_advice_all_or_nothing
      [of ?ko "JObj [(''cities'', JStr ''A,,C'')]" "JStr ''A,,C''" "''A,,C''" JUndefined
          "[''A'', '''', ''C'']" "?fetches [''A'', '''', ''C'']" mockEnv "[]",
       OF _ _ _ _ _ _ _ _ c2 refl]
    by (simp add: request_def named_def js_or_def)
  have dflt: "snd (handleRequest mockEnv ?dflt []) =
       [] @ map (\<lambda>c. (JStr c, JStr ''metric'')) [''London'', ''Paris'']"
    using travel_advice_all_or_nothing
      [of ?dflt "JObj []" JUndefined "''London,Paris''" JUndefined
          "[''London'', ''Paris'']" "?fetches [''London'', ''Paris'']" mockEnv "[]",
       OF _ _ _ _ _ _ _ _ c3 refl]
    by (simp add: request_def named_def js_or_def)
  from ok have ok1: "snd (handleRequest mockEnv ?ok []) =
       [(JStr ''A'', JStr ''metric''), (JStr ''B'', JStr ''metric''), (JStr ''C'', JStr ''metric'')]"
    by simp
  from ok f1 d have ok2: "\<exists>response.
        fst (handleRequest mockEnv ?ok []) = Fulfilled response \<and>
        resp_error response = None \<and>
        resp_result response =
          Some (JObj [(''description'',
                       JStr (''Travel weather advice for '' @ join '', '' [''A'', ''B'', ''C''])),
                      (''messages'',
                       JArr [JObj [(''role'', JStr ''user''),
                                   (''content'',
                                    JObj [(''type'', JStr ''text''),
                                          (''text'',
                                           JStr (''I'' @ [CHR 0x27] @
                                             ''m planning to travel to these cities '' @ ''today'' @
                                             ''. Please analyze the weather conditions and provide travel advice:\<newline>\<newline>'' @
                                             join ''\<newline>\<newline>''
                                               (map formatWeatherForDisplay
                                                  [getMockWeatherData ''A'' (JStr ''metric'') ''2024-01-01T00:00:00.000Z'',
                                                   getMockWeatherData ''B'' (JStr ''metric'') ''2024-01-01T00:00:00.000Z'',
                                                   getMockWeatherData ''C'' (JStr ''metric'') ''2024-01-01T00:00:00.000Z'']) @
                                             ?outro))])]])])"
    by blast
  from ko f2 have ko1: "\<exists>err. fst (handleRequest mockEnv ?ko []) = Rejected err"
    by blast
  from dflt have dflt1: "snd (handleRequest mockEnv ?dflt []) =
       [(JStr ''London'', JStr ''metric''), (JStr ''Paris'', JStr ''metric'')]"
    by simp
  show ?thesis
    using ok1 ok2 ko1 dflt1 by (simp add: j)
qed

text \<open>
  C9. A \<^verbatim>\<open>tools/list\<close> or \<^verbatim>\<open>prompts/list\<close> request is answered with the catalog and the
  id of the request, and with nothing else: the answer does not depend on the
  environment or on the calls made before, and the call makes no fetch. So two calls
  with the same request give the same response. The tool catalog has one entry, the
  prompt catalog three.
\<close>

theorem list_calls_idempotent:
  assumes "req_method r = ''tools/list'' \<or> req_method r = ''prompts/list''"
  shows "handleRequest e r made =
           (Fulfilled \<lparr> resp_jsonrpc = ''2.0'', resp_id = req_id r,
                        resp_result =
                          Some (if req_method r = ''tools/list''
                                then JObj [(''tools'', getAvailableTools)]
                                else JObj [(''prompts'', getAvailablePrompts)]),
                        resp_error = None \<rparr>,
            made)
         \<and> fst (handleRequest e r made) = fst (handleRequest e' r made')
         \<and> (\<exists>t. getAvailableTools = JArr [t])
         \<and> (\<exists>p1 p2 p3. getAvailablePrompts = JArr [p1, p2, p3])"
  using assms
  by (auto simp add: handleRequest_def dispatch_def handleToolsList_def handlePromptsList_def
        getAvailableTools_def getAvailablePrompts_def)

theorem list_calls_idempotent_witness:
  "handleRequest mockEnv (request (JNum 3) ''tools/list'' JUndefined) [] =
     (Fulfilled \<lparr> resp_jsonrpc = ''2.0'', resp_id = JNum 3,
                  resp_result = Some (JObj [(''tools'', getAvailableTools)]),
                  resp_error = None \<rparr>, [])
   \<and> handleRequest mockEnv (request (JNum 4) ''prompts/list'' JUndefined) [] =
     (Fulfilled \<lparr> resp_jsonrpc = ''2.0'', resp_id = JNum 4,
                  resp_result = Some (JObj [(''prompts'', getAvailablePrompts)]),
                  resp_error = None \<rparr>, [])"
  using list_calls_idempotent [of "request (JNum 3) ''tools/list'' JUndefined" mockEnv "[]"]
    list_calls_idempotent [of "request (JNum 4) ''prompts/list'' JUndefined" mockEnv "[]"]
  by (simp add: request_def)

text \<open>
  C10. A \<^verbatim>\<open>tools/call\<close> or \<^verbatim>\<open>prompts/get\<close> request with no \<^verbatim>\<open>params\<close> gets no response
  envelope. Destructuring the absent parameters throws inside the \<^verbatim>\<open>async\<close> handler,
  whose promise \<^verbatim>\<open>handleRequest\<close> returns without awaiting it; the promise of
  \<^verbatim>\<open>handleRequest\<close> is rejected with that \<^verbatim>\<open>TypeError\<close>, and no error of code -32603 is
  made.
\<close>

theorem absent_params_rejects:
  assumes "req_method r = ''tools/call'' \<or> req_method r = ''prompts/get''"
      and "req_params r = JUndefined"
  shows "handleRequest e r made = (Rejected (TypeError CannotDestructure), made)"
  using assms
  by (auto simp add: handleRequest_def dispatch_def handleToolsCall_def handlePromptsGet_def)

theorem absent_params_rejects_witness:
  "handleRequest mockEnv (request (JNum 1) ''tools/call'' JUndefined) [] =
     (Rejected (TypeError CannotDestructure), [])
   \<and> handleRequest mockEnv (request (JNum 2) ''prompts/get'' JUndefined) [] =
     (Rejected (TypeError CannotDestructure), [])"
  using absent_params_rejects [of "request (JNum 1) ''tools/call'' JUndefined" mockEnv "[]"]
    absent_params_rejects [of "request (JNum 2) ''prompts/get'' JUndefined" mockEnv "[]"]
  by (simp add: request_def)

end
